theory Spec2Isabelle
  imports Complex_Main
begin

section \<open>Data model\<close>

text \<open>
  The document entities of \<^verbatim>\<open>Canvas\<close> and \<^verbatim>\<open>historyStore.ts\<close>. A JavaScript
  \<^verbatim>\<open>number\<close> is modelled as a real number, an optional field as an \<open>option\<close>, an
  array as a list; where a theorem depends on the result of an arithmetic step, as in the
  wheel handler, the rounding to a double is written out. Field names carry a short prefix so that they do not capture the
  variable names \<open>x\<close>, \<open>y\<close>, \<open>width\<close>, \<open>height\<close> of the handlers. The fields
  \<^verbatim>\<open>bezierPoints\<close>, \<^verbatim>\<open>text\<close> and the font attributes of a shape are never read or
  written by the functions modelled below and are left out of the record.
\<close>

record ShapeProps =
  sh_id :: string
  sh_type :: string
  sh_x :: real
  sh_y :: real
  sh_width :: "real option"
  sh_height :: "real option"
  sh_radius :: "real option"
  sh_points :: "real list option"
  sh_stroke :: string
  sh_strokeWidth :: real
  sh_fill :: string
  sh_draggable :: bool

record GuidelineProps =
  gl_points :: "real list"
  gl_text :: "string option"
  gl_textPosition :: "(real \<times> real) option"

record AnnotationProps = GuidelineProps +
  shapeId :: string

record AlignmentGuideProps =
  ag_points :: "real list"

record JointProps =
  jt_id :: string
  jt_x :: real
  jt_y :: real
  jt_radius :: real
  jt_fill :: string
  jt_stroke :: string

record HistoryState =
  hs_shapes :: "ShapeProps list"
  hs_annotations :: "AnnotationProps list"

record HistoryRecord =
  hr_state :: HistoryState
  hr_description :: string

record HistoryStore =
  history :: "HistoryRecord list"
  currentIndex :: int
  maxHistorySize :: int
  isSaved :: bool


section \<open>JavaScript array primitives\<close>

text \<open>
  \<^verbatim>\<open>Array.prototype.slice(start, end)\<close>: a negative argument counts from the end of the
  array, both arguments are clamped to the array, and an empty range gives the empty array.
\<close>

definition slice :: "'a list \<Rightarrow> int \<Rightarrow> int \<Rightarrow> 'a list" where
  "slice xs start end' =
     (let n = int (length xs);
          k = (if start < 0 then max (n + start) 0 else min start n);
          e = (if end' < 0 then max (n + end') 0 else min end' n)
      in take (nat (e - k)) (drop (nat k) xs))"

text \<open>\<^verbatim>\<open>slice(start)\<close> with one argument runs to the end of the array.\<close>

definition slice_from :: "'a list \<Rightarrow> int \<Rightarrow> 'a list" where
  "slice_from xs start = slice xs start (int (length xs))"

text \<open>
  An indexed read \<^verbatim>\<open>xs[i]\<close>: \<^verbatim>\<open>undefined\<close> (here \<open>None\<close>) outside the array.
\<close>

definition at_index :: "'a list \<Rightarrow> int \<Rightarrow> 'a option" where
  "at_index xs i = (if 0 \<le> i \<and> i < int (length xs) then Some (xs ! nat i) else None)"

text \<open>\<^verbatim>\<open>v || 0\<close> on an optional number: zero when the field is absent.\<close>

definition or_zero :: "real option \<Rightarrow> real" where
  "or_zero v = (case v of None \<Rightarrow> 0 | Some w \<Rightarrow> w)"


section \<open>The history store (\<^verbatim>\<open>historyStore.ts\<close>)\<close>

definition initialStore :: HistoryStore where
  "initialStore = \<lparr>history = [], currentIndex = -1, maxHistorySize = 30, isSaved = True\<rparr>"

text \<open>
  The record built by \<^verbatim>\<open>addHistory\<close>. The deep copy through
  \<^verbatim>\<open>JSON.parse(JSON.stringify(...))\<close> yields an equal value: HOL values are immutable,
  and the entities hold only finite numbers, strings, booleans and arrays of them.
\<close>

definition newRecord :: "HistoryState \<Rightarrow> string \<Rightarrow> HistoryRecord" where
  "newRecord st d =
     \<lparr>hr_state = \<lparr>hs_shapes = hs_shapes st, hs_annotations = hs_annotations st\<rparr>,
      hr_description = d\<rparr>"

definition addHistory :: "HistoryState \<Rightarrow> string \<Rightarrow> HistoryStore \<Rightarrow> HistoryStore" where
  "addHistory st d s =
     (let newHistory0 =
            (if currentIndex s < int (length (history s)) - 1
             then slice (history s) 0 (currentIndex s + 1)
             else history s);
          newHistory1 = newHistory0 @ [newRecord st d];
          newHistory =
            (if int (length newHistory1) > maxHistorySize s
             then slice_from newHistory1 (int (length newHistory1) - maxHistorySize s)
             else newHistory1)
      in s\<lparr>history := newHistory,
            currentIndex := int (length newHistory) - 1,
            isSaved := False\<rparr>)"

text \<open>
  \<^verbatim>\<open>undo\<close> and \<^verbatim>\<open>redo\<close> return the snapshot (\<open>None\<close> for \<^verbatim>\<open>null\<close>) together with
  the store after the call. \<^verbatim>\<open>history[newIndex]?.state || null\<close> is the state of the
  record at the index when there is one; a state object is never falsy.
\<close>

definition undo :: "HistoryStore \<Rightarrow> HistoryState option \<times> HistoryStore" where
  "undo s =
     (if currentIndex s \<le> 0 then (None, s)
      else let newIndex = currentIndex s - 1
           in (map_option hr_state (at_index (history s) newIndex),
               s\<lparr>currentIndex := newIndex, isSaved := False\<rparr>))"

definition redo :: "HistoryStore \<Rightarrow> HistoryState option \<times> HistoryStore" where
  "redo s =
     (if currentIndex s \<ge> int (length (history s)) - 1 then (None, s)
      else let newIndex = currentIndex s + 1
           in (map_option hr_state (at_index (history s) newIndex),
               s\<lparr>currentIndex := newIndex, isSaved := False\<rparr>))"

definition getCurrentState :: "HistoryStore \<Rightarrow> HistoryState option" where
  "getCurrentState s =
     (if currentIndex s \<ge> 0 \<and> currentIndex s < int (length (history s))
      then Some (hr_state (history s ! nat (currentIndex s)))
      else None)"

definition resetHistory :: "HistoryStore \<Rightarrow> HistoryStore" where
  "resetHistory s = s\<lparr>history := [], currentIndex := -1, isSaved := True\<rparr>"

definition canUndo :: "HistoryStore \<Rightarrow> bool" where
  "canUndo s = (currentIndex s > 0)"

definition canRedo :: "HistoryStore \<Rightarrow> bool" where
  "canRedo s = (currentIndex s < int (length (history s)) - 1)"

definition setSaved :: "bool \<Rightarrow> HistoryStore \<Rightarrow> HistoryStore" where
  "setSaved saved s = s\<lparr>isSaved := saved\<rparr>"

text \<open>
  The store is reached only through its actions. A call sequence is a list of calls, run
  from left to right; the snapshot returned by \<^verbatim>\<open>undo\<close> and \<^verbatim>\<open>redo\<close> goes to the
  caller and does not influence the store.
\<close>

datatype HistoryCall =
    AddHistory HistoryState string
  | Undo
  | Redo
  | ResetHistory
  | SetSaved bool

fun call :: "HistoryCall \<Rightarrow> HistoryStore \<Rightarrow> HistoryStore" where
  "call (AddHistory st d) s = addHistory st d s"
| "call Undo s = snd (undo s)"
| "call Redo s = snd (redo s)"
| "call ResetHistory s = resetHistory s"
| "call (SetSaved b) s = setSaved b s"

fun calls :: "HistoryCall list \<Rightarrow> HistoryStore \<Rightarrow> HistoryStore" where
  "calls [] s = s"
| "calls (c # cs) s = calls cs (call c s)"

text \<open>
  What every call preserves: the bound stays 30, the history holds at most 30 records, and
  the index points into the history, or is \<open>-1\<close> with the history empty.
\<close>

definition store_inv :: "HistoryStore \<Rightarrow> bool" where
  "store_inv s \<longleftrightarrow>
     maxHistorySize s = 30 \<and> length (history s) \<le> 30 \<and>
     ((0 \<le> currentIndex s \<and> currentIndex s < int (length (history s)))
      \<or> (currentIndex s = - 1 \<and> history s = []))"


section \<open>The canvas component\<close>

text \<open>
  \<^verbatim>\<open>ToolType\<close> of the tools store.
\<close>

datatype ToolType =
    Select | Rectangle | Circle | Line | Polygon | Path | DoorTemplate
  | Text | Canvas | Brush | Color | View | Arrange | Transform

text \<open>
  The state of the \<^verbatim>\<open>Canvas\<close> component, together with the values it reads from the
  tools, drawing, canvas and history stores. A handler is a closure over the state of the
  last render: it reads that state and issues setter calls, so every handler below takes the
  rendered state and returns the state after its setter calls. A setter called with a plain
  value replaces what an earlier call of the same handler has set; a setter called with a
  function applies it to the pending value.
\<close>

record CanvasState =
  shapes :: "ShapeProps list"
  selectedId :: "string option"
  guidelines :: "GuidelineProps list"
  annotations :: "AnnotationProps list"
  alignmentGuides :: "AlignmentGuideProps list"
  isDrawing :: bool
  startPoint :: "(real \<times> real) option"
  currentShapeId :: "string option"
  continuousDrawing :: bool
  linePoints :: "real list"
  lineSegments :: "ShapeProps list"
  joints :: "JointProps list"
  mouseCaptured :: bool
  isSpacePressed :: bool
  lastPosition :: "real \<times> real"
  editingText :: "string option"
  cursor :: string
  activeTool :: ToolType
  strokeColor :: string
  strokeWidth :: real
  fillColor :: string
  hasFill :: bool
  cv_width :: real
  cv_height :: real
  zoom :: real
  pan :: "real \<times> real"
  store :: HistoryStore

record KeyboardEvent =
  ke_code :: string
  ke_key :: string
  ke_ctrlKey :: bool


text \<open>
  A value of type \<^verbatim>\<open>string | null\<close> used as a condition: \<^verbatim>\<open>null\<close> and the empty string
  are falsy. Inside a template literal \<^verbatim>\<open>null\<close> prints as "null".
\<close>

definition truthy :: "string option \<Rightarrow> bool" where
  "truthy v = (case v of None \<Rightarrow> False | Some t \<Rightarrow> t \<noteq> [])"

definition template :: "string option \<Rightarrow> string" where
  "template v = (case v of None \<Rightarrow> ''null'' | Some t \<Rightarrow> t)"

text \<open>
  The description texts of the history entries, as UTF-8 bytes: the prefix of a deletion,
  the prefix of a drawing, and \<^verbatim>\<open>toolNames\<close>.
\<close>

definition deletePrefix :: string where
  "deletePrefix = [CHR 0xE5, CHR 0x88, CHR 0xA0, CHR 0xE9, CHR 0x99, CHR 0xA4, CHR 0xE5,
     CHR 0xBD, CHR 0xA2, CHR 0xE7, CHR 0x8A, CHR 0xB6, CHR 0x20, CHR 0x23]"

definition drawPrefix :: string where
  "drawPrefix = [CHR 0xE7, CHR 0xBB, CHR 0x98, CHR 0xE5, CHR 0x88, CHR 0xB6]"

fun toolNames :: "ToolType \<Rightarrow> string option" where
  "toolNames Line = Some [CHR 0xE7, CHR 0x9B, CHR 0xB4, CHR 0xE7, CHR 0xBA, CHR 0xBF]"
| "toolNames Rectangle = Some [CHR 0xE7, CHR 0x9F, CHR 0xA9, CHR 0xE5, CHR 0xBD, CHR 0xA2]"
| "toolNames Circle = Some [CHR 0xE5, CHR 0x9C, CHR 0x86, CHR 0xE5, CHR 0xBD, CHR 0xA2]"
| "toolNames Path = Some [CHR 0xE8, CHR 0xB7, CHR 0xAF, CHR 0xE5, CHR 0xBE, CHR 0x84]"
| "toolNames Brush = Some [CHR 0xE7, CHR 0x94, CHR 0xBB, CHR 0xE7, CHR 0xAC, CHR 0x94]"
| "toolNames Polygon = Some [CHR 0xE5, CHR 0xA4, CHR 0x9A, CHR 0xE8, CHR 0xBE, CHR 0xB9,
     CHR 0xE5, CHR 0xBD, CHR 0xA2]"
| "toolNames _ = None"

subsection \<open>Undo, redo and the keyboard\<close>

definition recordHistory :: "string \<Rightarrow> CanvasState \<Rightarrow> HistoryStore \<Rightarrow> HistoryStore" where
  "recordHistory d st hs =
     addHistory \<lparr>hs_shapes = shapes st, hs_annotations = annotations st\<rparr> d hs"

definition handleUndo :: "CanvasState \<Rightarrow> CanvasState" where
  "handleUndo p =
     (case undo (store p) of
        (Some prevState, hs) \<Rightarrow>
          p\<lparr>store := hs, shapes := hs_shapes prevState, annotations := hs_annotations prevState\<rparr>
      | (None, hs) \<Rightarrow> p\<lparr>store := hs\<rparr>)"

definition handleRedo :: "CanvasState \<Rightarrow> CanvasState" where
  "handleRedo p =
     (case redo (store p) of
        (Some nextState, hs) \<Rightarrow>
          p\<lparr>store := hs, shapes := hs_shapes nextState, annotations := hs_annotations nextState\<rparr>
      | (None, hs) \<Rightarrow> p\<lparr>store := hs\<rparr>)"

text \<open>
  \<^verbatim>\<open>handleKeyboardDown\<close> is a sequence of five independent \<^verbatim>\<open>if\<close> statements,
  followed by the text-editing guard as the last statement. Each statement is a function of
  the event, of the rendered state \<open>st\<close> that the closure reads (where the statement reads
  it) and of the pending state \<open>p\<close> left by the statements before it.
\<close>

definition keySpace :: "KeyboardEvent \<Rightarrow> CanvasState \<Rightarrow> CanvasState \<Rightarrow> CanvasState" where
  "keySpace e st p =
     (if ke_code e = ''Space''
      then p\<lparr>isSpacePressed := True,
             cursor := (if mouseCaptured st then ''grabbing'' else ''grab'')\<rparr>
      else p)"

definition keyEscape :: "KeyboardEvent \<Rightarrow> CanvasState \<Rightarrow> CanvasState" where
  "keyEscape e p =
     (if ke_code e = ''Escape''
      then p\<lparr>continuousDrawing := False, linePoints := [], isDrawing := False,
             currentShapeId := None\<rparr>
      else p)"

definition keyUndo :: "KeyboardEvent \<Rightarrow> CanvasState \<Rightarrow> CanvasState" where
  "keyUndo e p = (if ke_ctrlKey e \<and> ke_key e = ''z'' then handleUndo p else p)"

definition keyRedo :: "KeyboardEvent \<Rightarrow> CanvasState \<Rightarrow> CanvasState" where
  "keyRedo e p = (if ke_ctrlKey e \<and> ke_key e = ''y'' then handleRedo p else p)"

definition keyDelete :: "KeyboardEvent \<Rightarrow> CanvasState \<Rightarrow> CanvasState \<Rightarrow> CanvasState" where
  "keyDelete e st p =
     (if (ke_key e = ''Delete'' \<or> ke_key e = ''Backspace'') \<and> truthy (selectedId st)
      then p\<lparr>shapes := filter (\<lambda>shape. Some (sh_id shape) \<noteq> selectedId st) (shapes st),
             annotations := filter (\<lambda>anno. Some (shapeId anno) \<noteq> selectedId st) (annotations st),
             store :=
               addHistory
                 \<lparr>hs_shapes = filter (\<lambda>shape. Some (sh_id shape) \<noteq> selectedId st) (shapes st),
                  hs_annotations =
                    filter (\<lambda>anno. Some (shapeId anno) \<noteq> selectedId st) (annotations st)\<rparr>
                 (deletePrefix @ template (selectedId st)) (store p),
             selectedId := None\<rparr>
      else p)"

definition handleKeyboardDown :: "KeyboardEvent \<Rightarrow> CanvasState \<Rightarrow> CanvasState" where
  "handleKeyboardDown e st =
     (let p1 = keySpace e st st;
          p2 = keyEscape e p1;
          p3 = keyUndo e p2;
          p4 = keyRedo e p3;
          p5 = keyDelete e st p4
      in if editingText st \<noteq> None then p5 else p5)"

subsection \<open>The wheel\<close>




subsection \<open>Pointer position and alignment snapping\<close>

text \<open>
  The pointer of an event is \<^verbatim>\<open>stage.getPointerPosition()\<close>, \<open>None\<close> when the stage or
  the position is missing. \<^verbatim>\<open>getStagePointerPosition\<close> converts it to canvas coordinates
  with \<^verbatim>\<open>scale = zoom / 100\<close>; the zoom of the canvas store is never zero
  (\<^verbatim>\<open>setZoom\<close> keeps it between 10 and 1000).
\<close>

definition scale :: "CanvasState \<Rightarrow> real" where
  "scale st = zoom st / 100"

definition getStagePointerPosition :: "CanvasState \<Rightarrow> (real \<times> real) option \<Rightarrow> (real \<times> real) option" where
  "getStagePointerPosition st pointerPos =
     (case pointerPos of
        None \<Rightarrow> None
      | Some (px, py) \<Rightarrow>
          Some (px / scale st + fst (pan st) / scale st, py / scale st + snd (pan st) / scale st))"

definition alignmentThreshold :: real where
  "alignmentThreshold = 10"

text \<open>
  The alignment loop of \<^verbatim>\<open>handleMouseMove\<close> and \<^verbatim>\<open>handleMouseUp\<close> keeps three
  variables: the guides found so far, \<^verbatim>\<open>snapToX\<close> and \<^verbatim>\<open>snapToY\<close>. One test against a
  vertical anchor \<open>v\<close> and one against a horizontal anchor \<open>h\<close>:
\<close>

type_synonym snap = "AlignmentGuideProps list \<times> real option \<times> real option"

definition alignX :: "CanvasState \<Rightarrow> real \<Rightarrow> real \<Rightarrow> snap \<Rightarrow> snap" where
  "alignX st x v acc =
     (case acc of (newAlignmentGuides, snapToX, snapToY) \<Rightarrow>
        if \<bar>x - v\<bar> < alignmentThreshold
        then (newAlignmentGuides @ [\<lparr>ag_points = [v, 0, v, cv_height st]\<rparr>], Some v, snapToY)
        else acc)"

definition alignY :: "CanvasState \<Rightarrow> real \<Rightarrow> real \<Rightarrow> snap \<Rightarrow> snap" where
  "alignY st y h acc =
     (case acc of (newAlignmentGuides, snapToX, snapToY) \<Rightarrow>
        if \<bar>y - h\<bar> < alignmentThreshold
        then (newAlignmentGuides @ [\<lparr>ag_points = [0, h, cv_width st, h]\<rparr>], snapToX, Some h)
        else acc)"

text \<open>The body of the \<^verbatim>\<open>shapes.forEach\<close> callback, for one shape.\<close>

definition alignShape :: "CanvasState \<Rightarrow> real \<Rightarrow> real \<Rightarrow> snap \<Rightarrow> ShapeProps \<Rightarrow> snap" where
  "alignShape st x y acc shape =
     (if Some (sh_id shape) = currentShapeId st then acc
      else if sh_type shape = ''rectangle'' then
        (let shapeLeft = sh_x shape;
             shapeRight = sh_x shape + or_zero (sh_width shape);
             shapeTop = sh_y shape;
             shapeBottom = sh_y shape + or_zero (sh_height shape)
         in alignY st y shapeBottom (alignY st y shapeTop
              (alignX st x shapeRight (alignX st x shapeLeft acc))))
      else if sh_type shape = ''line'' then
        (case sh_points shape of
           Some (startX # startY # endX # endY # rest) \<Rightarrow>
             alignY st y endY (alignX st x endX (alignY st y startY (alignX st x startX acc)))
         | _ \<Rightarrow> acc)
      else acc)"

definition alignAll :: "CanvasState \<Rightarrow> real \<Rightarrow> real \<Rightarrow> snap" where
  "alignAll st x y = foldl (alignShape st x y) ([], None, None) (shapes st)"

subsection \<open>Pointer move\<close>

text \<open>
  The callback of \<^verbatim>\<open>shapes.map\<close> in \<^verbatim>\<open>handleMouseMove\<close>, for the shape being drawn:
  the geometry it returns for each shape type. \<open>(sx, sy)\<close> is \<^verbatim>\<open>startPoint\<close>, \<open>(x, y)\<close>
  the pointer and \<open>(snappedX, snappedY)\<close> the pointer after snapping. Both branches of the
  length test of a line return the same shape.
\<close>

definition moveShape :: "real \<times> real \<Rightarrow> real \<times> real \<Rightarrow> real \<times> real \<Rightarrow> ShapeProps \<Rightarrow> ShapeProps" where
  "moveShape start pointer snapped shape =
     (case (start, pointer, snapped) of ((sx, sy), (x, y), (snappedX, snappedY)) \<Rightarrow>
        if sh_type shape = ''rectangle'' then
          shape\<lparr>sh_width := Some \<bar>x - sx\<bar>, sh_height := Some \<bar>y - sy\<bar>,
                sh_x := min sx x, sh_y := min sy y\<rparr>
        else if sh_type shape = ''circle'' then
          shape\<lparr>sh_radius := Some (sqrt ((x - sx) * (x - sx) + (y - sy) * (y - sy)))\<rparr>
        else if sh_type shape = ''line'' \<or> sh_type shape = ''polygon'' then
          shape\<lparr>sh_points := Some [sx, sy, snappedX, snappedY]\<rparr>
        else if sh_type shape = ''brush'' \<or> sh_type shape = ''path'' then
          shape\<lparr>sh_points :=
                  Some ((case sh_points shape of None \<Rightarrow> [] | Some ps \<Rightarrow> ps) @ [x, y])\<rparr>
        else shape)"

text \<open>
  \<^verbatim>\<open>handleMouseMove\<close>. The measurement guidelines that the handler builds next to the
  geometry (\<^verbatim>\<open>newGuidelines\<close>, with label texts from number formatting) are the argument
  \<open>newGuidelines\<close>. The branch for dragging a control point of the pen tool needs
  \<^verbatim>\<open>activeControlPoint.index !== -1\<close>; that state has no setter and stays at \<open>-1\<close>, so
  the branch is never taken.
\<close>

definition handleMouseMove ::
    "(real \<times> real) option \<Rightarrow> GuidelineProps list \<Rightarrow> CanvasState \<Rightarrow> CanvasState" where
  "handleMouseMove pointerPos newGuidelines st =
     (if isSpacePressed st \<and> mouseCaptured st then
        (case pointerPos of
           None \<Rightarrow> st
         | Some (px, py) \<Rightarrow>
             st\<lparr>pan := (fst (pan st) - (px - fst (lastPosition st)) / scale st,
                        snd (pan st) - (py - snd (lastPosition st)) / scale st),
                lastPosition := (px, py)\<rparr>)
      else
        (case getStagePointerPosition st pointerPos of
           None \<Rightarrow> st
         | Some (x, y) \<Rightarrow>
             (case startPoint st of
                None \<Rightarrow> st
              | Some start \<Rightarrow>
                  if \<not> isDrawing st \<or> \<not> truthy (currentShapeId st) then st
                  else
                    (case alignAll st x y of (guides, snapToX, snapToY) \<Rightarrow>
                       let snappedX = (case snapToX of Some v \<Rightarrow> v | None \<Rightarrow> x);
                           snappedY = (case snapToY of Some h \<Rightarrow> h | None \<Rightarrow> y)
                       in st\<lparr>alignmentGuides := guides,
                               shapes :=
                                 map (\<lambda>shape. if Some (sh_id shape) \<noteq> currentShapeId st then shape
                                              else moveShape start (x, y) (snappedX, snappedY) shape)
                                   (shapes st),
                               guidelines := newGuidelines\<rparr>))))"

subsection \<open>Pointer up\<close>

text \<open>
  \<^verbatim>\<open>{...guide, shapeId: currentShapeId}\<close>: the guidelines of the rendered state become
  annotations of the shape just drawn.
\<close>

definition permanentAnnotations :: "CanvasState \<Rightarrow> string \<Rightarrow> AnnotationProps list" where
  "permanentAnnotations st cid =
     map (\<lambda>guide. \<lparr>gl_points = gl_points guide, gl_text = gl_text guide,
                   gl_textPosition = gl_textPosition guide, shapeId = cid\<rparr>)
       (guidelines st)"

text \<open>
  The test of the small-shape discard: the tool is the rectangle or the circle tool, and
  the shape with the current id is a rectangle whose width and height are both below 5, or a
  circle whose radius is below 5. The shape is looked up in the rendered \<^verbatim>\<open>shapes\<close>.
\<close>

definition isSmallShape :: "CanvasState \<Rightarrow> string \<Rightarrow> bool" where
  "isSmallShape st cid =
     ((activeTool st = Rectangle \<or> activeTool st = Circle) \<and>
      (case find (\<lambda>s. sh_id s = cid) (shapes st) of
         None \<Rightarrow> False
       | Some shape \<Rightarrow>
           (sh_type shape = ''rectangle'' \<and> or_zero (sh_width shape) < 5
              \<and> or_zero (sh_height shape) < 5)
           \<or> (sh_type shape = ''circle'' \<and> or_zero (sh_radius shape) < 5)))"

text \<open>
  The closing test of a continuous polygon: the chain has a recorded point and the end of
  the current segment is nearer than \<^verbatim>\<open>closeDistance = 15\<close> to \<^verbatim>\<open>linePoints[0]\<close>,
  \<^verbatim>\<open>linePoints[1]\<close>. The result is that point.
\<close>

definition closesPolygon :: "CanvasState \<Rightarrow> real \<Rightarrow> real \<Rightarrow> (real \<times> real) option" where
  "closesPolygon st lineEndX lineEndY =
     (if continuousDrawing st \<and> length (linePoints st) \<ge> 2 then
        (case linePoints st of
           firstX # firstY # rest \<Rightarrow>
             (let dx = lineEndX - firstX;
                  dy = lineEndY - firstY;
                  distance = sqrt (dx * dx + dy * dy)
              in if distance < 15 then Some (firstX, firstY) else None)
         | _ \<Rightarrow> None)
      else None)"

text \<open>
  The test of the polygon branch, \<^verbatim>\<open>activeTool === 'polygon' && currentShape &&
  currentShape.points\<close>: the current shape and its points when it holds.
\<close>

definition polygonSegment :: "CanvasState \<Rightarrow> string \<Rightarrow> (ShapeProps \<times> real list) option" where
  "polygonSegment st cid =
     (if activeTool st = Polygon then
        (case find (\<lambda>s. sh_id s = cid) (shapes st) of
           None \<Rightarrow> None
         | Some currentShape \<Rightarrow>
             (case sh_points currentShape of
                None \<Rightarrow> None
              | Some ps \<Rightarrow> Some (currentShape, ps)))
      else None)"

text \<open>
  \<^verbatim>\<open>handleMouseUp\<close>. The handler first recomputes the geometry of the shape and the
  measurement guidelines from the pointer and passes them to \<^verbatim>\<open>setShapes\<close> and
  \<^verbatim>\<open>setGuidelines\<close>; it then calls \<^verbatim>\<open>setShapes\<close> again with a list computed from the
  rendered \<^verbatim>\<open>shapes\<close> (the shape made draggable), and every path to the end of the
  handler calls \<^verbatim>\<open>setGuidelines([])\<close>. These later calls replace the values of the
  first two, so the state after the handler is given by the later calls, which are the ones
  modelled. (The second test \<^verbatim>\<open>!isDrawing || !currentShapeId\<close> repeats a part of the
  first and cannot succeed.)

  The result is the state after the handler and, when the handler schedules the start
  of the next polygon segment with \<^verbatim>\<open>setTimeout\<close>, the end point of the segment just
  drawn. The handler reads \<^verbatim>\<open>points[2]\<close> and \<^verbatim>\<open>points[3]\<close> of the current shape; when
  the array of a polygon segment has fewer than four numbers the source continues with
  \<^verbatim>\<open>undefined\<close> in place of numbers, which no state of this model represents: the
  result is \<open>None\<close> there, and only there. \<open>jointId\<close> is the id that \<^verbatim>\<open>generateId\<close>
  returns for a new joint.
\<close>

definition handleMouseUp ::
    "(real \<times> real) option \<Rightarrow> string \<Rightarrow> CanvasState \<Rightarrow> (CanvasState \<times> (real \<times> real) option) option" where
  "handleMouseUp pointerPos jointId st =
     (if isSpacePressed st \<and> mouseCaptured st then
        Some (st\<lparr>cursor := ''grab'', mouseCaptured := False\<rparr>, None)
      else
        (let p0 = st\<lparr>mouseCaptured := False\<rparr> in
         case currentShapeId st of
           None \<Rightarrow> Some (p0, None)
         | Some cid \<Rightarrow>
             if \<not> isDrawing st \<or> startPoint st = None \<or> cid = [] then Some (p0, None)
             else
               (case getStagePointerPosition st pointerPos of
                  None \<Rightarrow> Some (p0, None)
                | Some (x, y) \<Rightarrow>
                    (let p1 = p0\<lparr>alignmentGuides := [],
                                 shapes := map (\<lambda>shape. if sh_id shape = cid
                                                         then shape\<lparr>sh_draggable := True\<rparr>
                                                         else shape) (shapes st)\<rparr>
                     in
                     if isSmallShape st cid then
                       Some (p1\<lparr>shapes := filter (\<lambda>s. sh_id s \<noteq> cid) (shapes st),
                                guidelines := [], isDrawing := False, startPoint := None,
                                currentShapeId := None\<rparr>, None)
                     else
                       (case polygonSegment st cid of
                          Some (currentShape, startX # startY # lineEndX # lineEndY # rest) \<Rightarrow>
                            (case closesPolygon st lineEndX lineEndY of
                               Some (firstX, firstY) \<Rightarrow>
                                 Some (p1\<lparr>shapes :=
                                            map (\<lambda>s. if sh_id s = cid
                                                      then currentShape
                                                             \<lparr>sh_points := Some [startX, startY, firstX, firstY]\<rparr>
                                                      else s) (shapes p1),
                                          annotations := annotations st @ permanentAnnotations st cid,
                                          guidelines := [],
                                          continuousDrawing := False, linePoints := [],
                                          isDrawing := False, currentShapeId := None\<rparr>, None)
                             | None \<Rightarrow>
                                 Some (p1\<lparr>linePoints := linePoints st @ [lineEndX, lineEndY],
                                          lineSegments :=
                                            lineSegments st @ [currentShape\<lparr>sh_draggable := True\<rparr>],
                                          joints :=
                                            (if length (linePoints st) \<ge> 2
                                             then joints p1 @
                                                  [\<lparr>jt_id = jointId, jt_x = lineEndX, jt_y = lineEndY,
                                                    jt_radius = strokeWidth st * 0.4,
                                                    jt_fill = strokeColor st, jt_stroke = strokeColor st\<rparr>]
                                             else joints p1),
                                          continuousDrawing := True,
                                          annotations := annotations st @ permanentAnnotations st cid,
                                          guidelines := [],
                                          isDrawing := False, currentShapeId := None\<rparr>,
                                       Some (lineEndX, lineEndY)))
                        | Some (currentShape, short) \<Rightarrow> None
                        | None \<Rightarrow>
                            if activeTool st = Line then
                              Some (p1\<lparr>annotations := annotations st @ permanentAnnotations st cid,
                                       guidelines := [], isDrawing := False, startPoint := None,
                                       currentShapeId := None\<rparr>, None)
                            else
                              (let p2 = p1\<lparr>annotations := annotations st @ permanentAnnotations st cid,
                                            guidelines := [], isDrawing := False, startPoint := None,
                                            currentShapeId := None\<rparr>
                               in case toolNames (activeTool st) of
                                    None \<Rightarrow> Some (p2, None)
                                  | Some name \<Rightarrow>
                                      if activeTool st = Polygon \<and> continuousDrawing st
                                      then Some (p2, None)
                                      else Some (p2\<lparr>store :=
                                                      recordHistory (drawPrefix @ name @ '' #'' @ cid)
                                                        st (store st)\<rparr>, None)))))))"

text \<open>
  The callback that \<^verbatim>\<open>handleMouseUp\<close> schedules for the next polygon segment. It is a
  closure over the state \<open>st\<close> that \<^verbatim>\<open>handleMouseUp\<close> has read, and runs on the state
  \<open>p\<close> found when the timer fires; \<open>newId\<close> is the generated id of the new segment.
\<close>

definition startNextSegment :: "string \<Rightarrow> CanvasState \<Rightarrow> real \<times> real \<Rightarrow> CanvasState \<Rightarrow> CanvasState" where
  "startNextSegment newId st lineEnd p =
     (case lineEnd of (lineEndX, lineEndY) \<Rightarrow>
        p\<lparr>shapes := shapes st @
             [\<lparr>sh_id = newId, sh_type = ''line'', sh_x = 0, sh_y = 0,
               sh_width = None, sh_height = None, sh_radius = None,
               sh_points = Some [lineEndX, lineEndY, lineEndX, lineEndY],
               sh_stroke = strokeColor st, sh_strokeWidth = strokeWidth st,
               sh_fill = ''transparent'', sh_draggable = True\<rparr>],
          currentShapeId := Some newId,
          startPoint := Some (lineEndX, lineEndY),
          isDrawing := True\<rparr>)"

subsection \<open>Double click\<close>

text \<open>
  \<^verbatim>\<open>handleDblClick\<close> closes a continuous polygon by hand: it adds the closing segment
  and a closing joint at \<^verbatim>\<open>linePoints[0]\<close>, \<^verbatim>\<open>linePoints[1]\<close>. \<open>lineId\<close> and
  \<open>jointId\<close> are the two generated ids.
\<close>

definition handleDblClick :: "string \<Rightarrow> string \<Rightarrow> CanvasState \<Rightarrow> CanvasState" where
  "handleDblClick lineId jointId st =
     (if continuousDrawing st \<and> length (linePoints st) \<ge> 4 then
        (let firstX = linePoints st ! 0;
             firstY = linePoints st ! 1;
             lastX = linePoints st ! (length (linePoints st) - 2);
             lastY = linePoints st ! (length (linePoints st) - 1)
         in st\<lparr>shapes := shapes st @
                  [\<lparr>sh_id = lineId, sh_type = ''line'', sh_x = 0, sh_y = 0,
                    sh_width = None, sh_height = None, sh_radius = None,
                    sh_points = Some [lastX, lastY, firstX, firstY],
                    sh_stroke = strokeColor st, sh_strokeWidth = strokeWidth st,
                    sh_fill = (if hasFill st then fillColor st else ''transparent''),
                    sh_draggable = True\<rparr>],
                joints := joints st @
                  [\<lparr>jt_id = jointId, jt_x = firstX, jt_y = firstY,
                    jt_radius = strokeWidth st * 0.4,
                    jt_fill = strokeColor st, jt_stroke = strokeColor st\<rparr>],
                continuousDrawing := False, linePoints := [],
                isDrawing := False, currentShapeId := None\<rparr>)
      else st)"


section \<open>Concrete documents and sessions\<close>

text \<open>
  The states at which the theorems below are instantiated. \<open>initialCanvas\<close> holds the
  initial values of the component state and of the stores; \<open>mountedCanvas\<close> is the state
  after the mount effect has recorded the initial history entry.
\<close>

definition emptyDoc :: HistoryState where
  "emptyDoc = \<lparr>hs_shapes = [], hs_annotations = []\<rparr>"

definition two_pushes :: "HistoryCall list" where
  "two_pushes = [AddHistory emptyDoc ''a'', AddHistory emptyDoc ''b'']"

definition five_pushes_two_undos :: "HistoryCall list" where
  "five_pushes_two_undos =
     [AddHistory emptyDoc ''a'', AddHistory emptyDoc ''b'', AddHistory emptyDoc ''c'',
      AddHistory emptyDoc ''d'', AddHistory emptyDoc ''e'', Undo, Undo]"

definition initialCanvas :: CanvasState where
  "initialCanvas =
     \<lparr>shapes = [], selectedId = None, guidelines = [], annotations = [], alignmentGuides = [],
      isDrawing = False, startPoint = None, currentShapeId = None, continuousDrawing = False,
      linePoints = [], lineSegments = [], joints = [], mouseCaptured = False,
      isSpacePressed = False, lastPosition = (0, 0), editingText = None, cursor = [],
      activeTool = Select, strokeColor = ''#000000'', strokeWidth = 10,
      fillColor = ''#4287f5'', hasFill = False, cv_width = 3000, cv_height = 4000,
      zoom = 100, pan = (0, 0), store = initialStore\<rparr>"

definition initialDescription :: string where
  "initialDescription = [CHR 0xE5, CHR 0x88, CHR 0x9D, CHR 0xE5, CHR 0xA7, CHR 0x8B,
     CHR 0xE7, CHR 0x8A, CHR 0xB6, CHR 0xE6, CHR 0x80, CHR 0x81]"

definition mountedCanvas :: CanvasState where
  "mountedCanvas =
     initialCanvas\<lparr>store := recordHistory initialDescription initialCanvas initialStore\<rparr>"

text \<open>
  The shapes that \<^verbatim>\<open>handleMouseDown\<close> creates for the rectangle tool and for the line
  and polygon tools, with the default drawing properties; a rectangle of a given size; an
  annotation of a shape.
\<close>

definition rectangle :: "string \<Rightarrow> real \<Rightarrow> real \<Rightarrow> real \<Rightarrow> real \<Rightarrow> ShapeProps" where
  "rectangle i x y w h =
     \<lparr>sh_id = i, sh_type = ''rectangle'', sh_x = x, sh_y = y, sh_width = Some w,
      sh_height = Some h, sh_radius = None, sh_points = None, sh_stroke = ''#000000'',
      sh_strokeWidth = 10, sh_fill = ''transparent'', sh_draggable = True\<rparr>"

definition segment :: "string \<Rightarrow> real \<Rightarrow> real \<Rightarrow> real \<Rightarrow> real \<Rightarrow> ShapeProps" where
  "segment i x1 y1 x2 y2 =
     \<lparr>sh_id = i, sh_type = ''line'', sh_x = 0, sh_y = 0, sh_width = None,
      sh_height = None, sh_radius = None, sh_points = Some [x1, y1, x2, y2],
      sh_stroke = ''#000000'', sh_strokeWidth = 10, sh_fill = ''transparent'',
      sh_draggable = True\<rparr>"

definition measure_of :: "string \<Rightarrow> AnnotationProps" where
  "measure_of i = \<lparr>gl_points = [0, 0, 1, 1], gl_text = None, gl_textPosition = None, shapeId = i\<rparr>"

definition pressDelete :: KeyboardEvent where
  "pressDelete = \<lparr>ke_code = ''Delete'', ke_key = ''Delete'', ke_ctrlKey = False\<rparr>"

definition pressBackspace :: KeyboardEvent where
  "pressBackspace = \<lparr>ke_code = ''Backspace'', ke_key = ''Backspace'', ke_ctrlKey = False\<rparr>"


text \<open>A document of two rectangles with one annotation each, the first one selected.\<close>

definition twoRectangles :: CanvasState where
  "twoRectangles =
     mountedCanvas\<lparr>shapes := [rectangle ''r1'' 0 0 50 50, rectangle ''r2'' 60 0 50 50],
                   annotations := [measure_of ''r1'', measure_of ''r2''],
                   selectedId := Some ''r1''\<rparr>"

text \<open>
  A document whose only shape carries the empty id, selected. \<^verbatim>\<open>generateId\<close> returns
  \<^verbatim>\<open>Math.random().toString(36).substring(2, 11)\<close>, which is the empty string when the
  random number is 0.
\<close>

definition emptyIdSelected :: CanvasState where
  "emptyIdSelected =
     mountedCanvas\<lparr>shapes := [rectangle [] 0 0 50 50], annotations := [measure_of []],
                   selectedId := Some []\<rparr>"

definition emptyIdEditing :: CanvasState where
  "emptyIdEditing = emptyIdSelected\<lparr>editingText := Some ''t1''\<rparr>"

text \<open>
  Drawing with the rectangle tool: the pointer went down at \<open>(10, 10)\<close> and the last move
  left a rectangle of width 2 and height 100.
\<close>

definition thinRectangle :: CanvasState where
  "thinRectangle =
     mountedCanvas\<lparr>activeTool := Rectangle, shapes := [rectangle ''r1'' 10 10 2 100],
                   isDrawing := True, startPoint := Some (10, 10),
                   currentShapeId := Some ''r1''\<rparr>"

text \<open>
  Drawing a second rectangle next to one whose right edge is at \<open>x = 110\<close>: the pointer
  went down at \<open>(200, 50)\<close>. The same session with the line tool.
\<close>

definition besideRectangle :: CanvasState where
  "besideRectangle =
     mountedCanvas\<lparr>activeTool := Rectangle,
                   shapes := [rectangle ''r1'' 10 10 100 100, rectangle ''r2'' 200 50 0 0],
                   isDrawing := True, startPoint := Some (200, 50),
                   currentShapeId := Some ''r2''\<rparr>"

definition lineBesideRectangle :: CanvasState where
  "lineBesideRectangle =
     mountedCanvas\<lparr>activeTool := Line,
                   shapes := [rectangle ''r1'' 10 10 100 100, segment ''l2'' 200 50 200 50],
                   isDrawing := True, startPoint := Some (200, 50),
                   currentShapeId := Some ''l2''\<rparr>"

text \<open>
  A polygon session. \<open>polygonStart v\<close> is the state after the pointer has gone down at
  \<open>v\<close> with the polygon tool. \<open>vertex\<close> adds one vertex: the pointer moves to the
  position and is released there, and the timer that \<^verbatim>\<open>handleMouseUp\<close> has scheduled
  starts the next segment. (The pointer-down events of a continuous session return before
  they touch the drawing state.)
\<close>

definition polygonStart :: "real \<times> real \<Rightarrow> CanvasState" where
  "polygonStart v =
     mountedCanvas\<lparr>activeTool := Polygon, shapes := [segment ''s1'' (fst v) (snd v) (fst v) (snd v)],
                   isDrawing := True, startPoint := Some v, currentShapeId := Some ''s1''\<rparr>"

definition vertex ::
    "real \<times> real \<Rightarrow> GuidelineProps list \<Rightarrow> string \<Rightarrow> string \<Rightarrow> CanvasState \<Rightarrow> CanvasState option" where
  "vertex pos labels jointId newId st =
     (let moved = handleMouseMove (Some pos) labels st
      in case handleMouseUp (Some pos) jointId moved of
           None \<Rightarrow> None
         | Some (p, None) \<Rightarrow> Some p
         | Some (p, Some lineEnd) \<Rightarrow> Some (startNextSegment newId moved lineEnd p))"

text \<open>
  Three vertices after the first one, each with the measurement guidelines of its last
  pointer move; what is observed of the session afterwards: the
  mode flags, the recorded chain, the positions of the joints and the points of the shapes.
\<close>

definition polygon4 ::
    "real \<times> real \<Rightarrow> real \<times> real \<Rightarrow> real \<times> real \<Rightarrow> real \<times> real
       \<Rightarrow> GuidelineProps list \<Rightarrow> GuidelineProps list \<Rightarrow> GuidelineProps list \<Rightarrow> CanvasState option" where
  "polygon4 v1 v2 v3 v4 l2 l3 l4 =
     Option.bind (Option.bind (vertex v2 l2 ''j1'' ''s2'' (polygonStart v1))
                    (vertex v3 l3 ''j2'' ''s3''))
       (vertex v4 l4 ''j3'' ''s4'')"

definition observe ::
    "CanvasState \<Rightarrow> bool \<times> bool \<times> string option \<times> real list \<times> (real \<times> real) list \<times> real list option list" where
  "observe st =
     (continuousDrawing st, isDrawing st, currentShapeId st, linePoints st,
      map (\<lambda>j. (jt_x j, jt_y j)) (joints st), map sh_points (shapes st))"

text \<open>
  The states of a continuous polygon session between two vertices: the finished segments,
  the segment being drawn and its start, the recorded chain, the joints and the annotations.
  A joint of the session has the default stroke colour and 0.4 times the default stroke width.
\<close>

definition joint :: "string \<Rightarrow> real \<Rightarrow> real \<Rightarrow> JointProps" where
  "joint i x y =
     \<lparr>jt_id = i, jt_x = x, jt_y = y, jt_radius = 4, jt_fill = ''#000000'', jt_stroke = ''#000000''\<rparr>"

definition chainState ::
    "ShapeProps list \<Rightarrow> ShapeProps \<Rightarrow> real \<times> real \<Rightarrow> real list \<Rightarrow> JointProps list
       \<Rightarrow> AnnotationProps list \<Rightarrow> CanvasState" where
  "chainState finished cur start chain jts annos =
     mountedCanvas\<lparr>activeTool := Polygon, shapes := finished @ [cur], lineSegments := finished,
                   isDrawing := True, startPoint := Some start,
                   currentShapeId := Some (sh_id cur), continuousDrawing := True,
                   linePoints := chain, joints := jts, annotations := annos\<rparr>"

definition labelled :: "GuidelineProps list \<Rightarrow> string \<Rightarrow> AnnotationProps list" where
  "labelled labels cid = permanentAnnotations (mountedCanvas\<lparr>guidelines := labels\<rparr>) cid"

section \<open>The history store: invariant and undo/redo\<close>

lemma slice_prefix: "0 \<le> e \<Longrightarrow> slice xs 0 e = take (nat e) xs"
  by (simp add: slice_def Let_def min_def)

lemma slice_from_drop: "0 \<le> k \<Longrightarrow> slice_from xs k = drop (nat k) xs"
  by (auto simp add: slice_from_def slice_def Let_def min_def)

lemma addHistory_history:
  assumes "store_inv s"
  shows "history (addHistory st d s) =
           drop (length (take (nat (currentIndex s + 1)) (history s)) + 1 - 30)
             (take (nat (currentIndex s + 1)) (history s) @ [newRecord st d])"
proof -
  from assms have m: "maxHistorySize s = 30" and l: "length (history s) \<le> 30"
    and i: "- 1 \<le> currentIndex s" "currentIndex s < int (length (history s))"
    by (auto simp: store_inv_def)
  show ?thesis
  proof (cases "currentIndex s < int (length (history s)) - 1")
    case True
    then show ?thesis using m l i
      by (simp add: addHistory_def Let_def slice_prefix slice_from_drop)
  next
    case False
    with i have "nat (currentIndex s + 1) = length (history s)" by linarith
    then show ?thesis using m l False
      by (auto simp add: addHistory_def Let_def slice_from_drop nat_diff_distrib)
  qed
qed

lemma addHistory_inv: "store_inv s \<Longrightarrow> store_inv (addHistory st d s)"
  unfolding store_inv_def
  by (auto simp add: addHistory_def Let_def slice_prefix slice_from_drop)

lemma undo_inv: "store_inv s \<Longrightarrow> store_inv (snd (undo s))"
  unfolding store_inv_def by (auto simp add: undo_def Let_def)

lemma redo_inv: "store_inv s \<Longrightarrow> store_inv (snd (redo s))"
  unfolding store_inv_def by (auto simp add: redo_def Let_def)

lemma call_inv:
  assumes "store_inv s"
  shows "store_inv (call c s)"
proof (cases c)
  case (AddHistory st d)
  with assms show ?thesis by (simp add: addHistory_inv)
next
  case Undo
  with assms show ?thesis by (simp add: undo_inv)
next
  case Redo
  with assms show ?thesis by (simp add: redo_inv)
next
  case ResetHistory
  with assms show ?thesis by (simp add: resetHistory_def store_inv_def)
next
  case (SetSaved b)
  with assms show ?thesis by (simp add: setSaved_def store_inv_def)
qed

lemma calls_inv: "store_inv s \<Longrightarrow> store_inv (calls cs s)"
  by (induction cs arbitrary: s) (auto simp add: call_inv)

lemma initial_inv: "store_inv initialStore"
  by (simp add: store_inv_def initialStore_def)

lemma reachable_inv: "store_inv (calls cs initialStore)"
  by (rule calls_inv [OF initial_inv])

text \<open>
  C1. After every sequence of \<^verbatim>\<open>addHistory\<close>, \<^verbatim>\<open>undo\<close>, \<^verbatim>\<open>redo\<close> and
  \<^verbatim>\<open>resetHistory\<close> calls from the initial store, the history holds at most 30 records
  and \<^verbatim>\<open>currentIndex\<close> is a valid index into it or the sentinel \<open>-1\<close>. A further push
  keeps the records up to the current one, appends the new record and, once that exceeds
  30, drops records from the front: the oldest go first.
\<close>

theorem history_bounded:
  "let s = calls cs initialStore;
       kept = take (nat (currentIndex s + 1)) (history s)
   in length (history s) \<le> 30
      \<and> ((0 \<le> currentIndex s \<and> currentIndex s < int (length (history s))) \<or> currentIndex s = - 1)
      \<and> history (addHistory st d s) = drop (length kept + 1 - 30) (kept @ [newRecord st d])"
  using reachable_inv [of cs] addHistory_history [OF reachable_inv [of cs], of st d]
  by (auto simp add: Let_def store_inv_def)

text \<open>
  C2. A push while \<^verbatim>\<open>currentIndex < history.length - 1\<close> discards every record after
  the current one and appends the new record, which becomes the current entry. With five
  records and two undos (index 2) the push leaves four records, the new one at index 3.
\<close>

theorem push_prunes_redo_branch:
  "currentIndex (calls cs initialStore) < int (length (history (calls cs initialStore))) - 1 \<Longrightarrow>
   history (addHistory st d (calls cs initialStore)) =
     take (nat (currentIndex (calls cs initialStore) + 1)) (history (calls cs initialStore))
       @ [newRecord st d]
   \<and> currentIndex (addHistory st d (calls cs initialStore)) = currentIndex (calls cs initialStore) + 1
   \<and> getCurrentState (addHistory st d (calls cs initialStore)) = Some (hr_state (newRecord st d))"
proof -
  let ?s = "calls cs initialStore"
  assume tail: "currentIndex ?s < int (length (history ?s)) - 1"
  have inv: "store_inv ?s" by (rule reachable_inv)
  then have l: "length (history ?s) \<le> 30" and i: "- 1 \<le> currentIndex ?s"
    by (auto simp: store_inv_def)
  from tail i have len:
    "length (take (nat (currentIndex ?s + 1)) (history ?s)) = nat (currentIndex ?s + 1)"
    by simp
  from tail l have "nat (currentIndex ?s + 1) + 1 - 30 = 0" by linarith
  with addHistory_history [OF inv, of st d] len
  have h: "history (addHistory st d ?s) =
      take (nat (currentIndex ?s + 1)) (history ?s) @ [newRecord st d]"
    by simp
  have c: "currentIndex (addHistory st d ?s) = int (length (history (addHistory st d ?s))) - 1"
    by (simp add: addHistory_def Let_def)
  have c': "currentIndex (addHistory st d ?s) = currentIndex ?s + 1"
    using i by (simp only: c h length_append len) simp
  have g: "getCurrentState (addHistory st d ?s) = Some (hr_state (newRecord st d))"
    using i len by (simp add: getCurrentState_def c' h nth_append)
  from h c' g show ?thesis by simp
qed

lemma five_pushes_two_undos_store:
  "calls five_pushes_two_undos initialStore =
     \<lparr>history = [newRecord emptyDoc ''a'', newRecord emptyDoc ''b'', newRecord emptyDoc ''c'',
                 newRecord emptyDoc ''d'', newRecord emptyDoc ''e''],
      currentIndex = 2, maxHistorySize = 30, isSaved = False\<rparr>"
  by (simp add: five_pushes_two_undos_def initialStore_def addHistory_def undo_def slice_def
        slice_from_def Let_def)

theorem push_prunes_redo_branch_witness:
  "length (history (calls five_pushes_two_undos initialStore)) = 5
   \<and> currentIndex (calls five_pushes_two_undos initialStore) = 2
   \<and> length (history (addHistory emptyDoc ''f'' (calls five_pushes_two_undos initialStore))) = 4
   \<and> currentIndex (addHistory emptyDoc ''f'' (calls five_pushes_two_undos initialStore)) = 3
   \<and> history (addHistory emptyDoc ''f'' (calls five_pushes_two_undos initialStore)) ! 3
       = newRecord emptyDoc ''f''"
  using push_prunes_redo_branch [of five_pushes_two_undos emptyDoc "''f''"]
  by (simp add: five_pushes_two_undos_store)

text \<open>
  C3. In every reachable store in which \<^verbatim>\<open>canUndo()\<close> holds, \<^verbatim>\<open>undo()\<close> followed by
  \<^verbatim>\<open>redo()\<close> comes back to the same index and the same current snapshot, which
  \<^verbatim>\<open>redo\<close> returns; and in every reachable store in which \<^verbatim>\<open>canRedo()\<close> holds, so
  does \<^verbatim>\<open>redo()\<close> followed by \<^verbatim>\<open>undo()\<close>.
\<close>

theorem undo_redo_roundtrip:
  "(canUndo (calls cs initialStore) \<longrightarrow>
      (case undo (calls cs initialStore) of (r1, s1) \<Rightarrow>
         case redo s1 of (r2, s2) \<Rightarrow>
           currentIndex s2 = currentIndex (calls cs initialStore)
           \<and> r2 = getCurrentState (calls cs initialStore)
           \<and> getCurrentState s2 = getCurrentState (calls cs initialStore)
           \<and> getCurrentState s2 \<noteq> None))
   \<and> (canRedo (calls cs initialStore) \<longrightarrow>
      (case redo (calls cs initialStore) of (r1, s1) \<Rightarrow>
         case undo s1 of (r2, s2) \<Rightarrow>
           currentIndex s2 = currentIndex (calls cs initialStore)
           \<and> r2 = getCurrentState (calls cs initialStore)
           \<and> getCurrentState s2 = getCurrentState (calls cs initialStore)
           \<and> getCurrentState s2 \<noteq> None))"
  using reachable_inv [of cs]
  by (auto simp add: store_inv_def canUndo_def canRedo_def undo_def redo_def getCurrentState_def
        at_index_def Let_def)

lemma two_pushes_store:
  "calls two_pushes initialStore =
     \<lparr>history = [newRecord emptyDoc ''a'', newRecord emptyDoc ''b''],
      currentIndex = 1, maxHistorySize = 30, isSaved = False\<rparr>"
  by (simp add: two_pushes_def initialStore_def addHistory_def slice_def slice_from_def Let_def)

lemma two_pushes_undo_store:
  "calls (two_pushes @ [Undo]) initialStore =
     \<lparr>history = [newRecord emptyDoc ''a'', newRecord emptyDoc ''b''],
      currentIndex = 0, maxHistorySize = 30, isSaved = False\<rparr>"
  by (simp add: two_pushes_def initialStore_def addHistory_def undo_def slice_def slice_from_def
        Let_def)

theorem undo_redo_roundtrip_witness:
  "canUndo (calls two_pushes initialStore)
   \<and> currentIndex (snd (redo (snd (undo (calls two_pushes initialStore))))) = 1
   \<and> fst (redo (snd (undo (calls two_pushes initialStore)))) = Some (hr_state (newRecord emptyDoc ''b''))
   \<and> canRedo (calls (two_pushes @ [Undo]) initialStore)
   \<and> currentIndex (snd (undo (snd (redo (calls (two_pushes @ [Undo]) initialStore))))) = 0
   \<and> fst (undo (snd (redo (calls (two_pushes @ [Undo]) initialStore))))
       = Some (hr_state (newRecord emptyDoc ''a''))"
  using undo_redo_roundtrip [of two_pushes] undo_redo_roundtrip [of "two_pushes @ [Undo]"]
  by (simp add: two_pushes_store two_pushes_undo_store canUndo_def canRedo_def undo_def redo_def
        getCurrentState_def at_index_def Let_def)

text \<open>
  C4. In a reachable store, \<^verbatim>\<open>undo()\<close> at index 0 or \<open>-1\<close> returns \<^verbatim>\<open>null\<close> and leaves
  the store as it is, and so does \<^verbatim>\<open>redo()\<close> at index \<^verbatim>\<open>history.length - 1\<close>. In every
  other reachable store \<^verbatim>\<open>undo()\<close> lowers the index by one, \<^verbatim>\<open>redo()\<close> raises it by
  one, and each returns the snapshot at the new index.
\<close>

theorem undo_redo_bounds:
  "(currentIndex (calls cs initialStore) = 0 \<or> currentIndex (calls cs initialStore) = - 1 \<longrightarrow>
      undo (calls cs initialStore) = (None, calls cs initialStore))
   \<and> (currentIndex (calls cs initialStore) = int (length (history (calls cs initialStore))) - 1 \<longrightarrow>
      redo (calls cs initialStore) = (None, calls cs initialStore))
   \<and> (\<not> (currentIndex (calls cs initialStore) = 0 \<or> currentIndex (calls cs initialStore) = - 1) \<longrightarrow>
      fst (undo (calls cs initialStore))
        = Some (hr_state (history (calls cs initialStore) ! nat (currentIndex (calls cs initialStore) - 1)))
      \<and> currentIndex (snd (undo (calls cs initialStore))) = currentIndex (calls cs initialStore) - 1
      \<and> history (snd (undo (calls cs initialStore))) = history (calls cs initialStore))
   \<and> (currentIndex (calls cs initialStore) \<noteq> int (length (history (calls cs initialStore))) - 1 \<longrightarrow>
      fst (redo (calls cs initialStore))
        = Some (hr_state (history (calls cs initialStore) ! nat (currentIndex (calls cs initialStore) + 1)))
      \<and> currentIndex (snd (redo (calls cs initialStore))) = currentIndex (calls cs initialStore) + 1
      \<and> history (snd (redo (calls cs initialStore))) = history (calls cs initialStore))"
  using reachable_inv [of cs]
  by (auto simp add: store_inv_def undo_def redo_def at_index_def Let_def)

lemma initialStore_fields:
  "currentIndex initialStore = - 1" "history initialStore = []"
  by (simp_all add: initialStore_def)

theorem undo_redo_bounds_witness:
  "currentIndex (calls [] initialStore) = - 1
   \<and> undo (calls [] initialStore) = (None, calls [] initialStore)
   \<and> redo (calls [] initialStore) = (None, calls [] initialStore)
   \<and> currentIndex (calls two_pushes initialStore) = 1
   \<and> fst (undo (calls two_pushes initialStore)) = Some (hr_state (newRecord emptyDoc ''a''))
   \<and> currentIndex (snd (undo (calls two_pushes initialStore))) = 0
   \<and> currentIndex (calls (two_pushes @ [Undo]) initialStore) = 0
   \<and> undo (calls (two_pushes @ [Undo]) initialStore) = (None, calls (two_pushes @ [Undo]) initialStore)
   \<and> fst (redo (calls (two_pushes @ [Undo]) initialStore)) = Some (hr_state (newRecord emptyDoc ''b''))
   \<and> currentIndex (snd (redo (calls (two_pushes @ [Undo]) initialStore))) = 1"
proof -
  have a: "currentIndex (calls [] initialStore) = - 1"
    and b: "int (length (history (calls [] initialStore))) - 1 = - 1"
    by (simp_all add: initialStore_fields)
  have c: "currentIndex (calls two_pushes initialStore) = 1"
    by (simp add: two_pushes_store)
  have d: "currentIndex (calls (two_pushes @ [Undo]) initialStore) = 0"
    by (simp add: two_pushes_undo_store)
  from undo_redo_bounds [of "[]"] a b
  have e: "undo (calls [] initialStore) = (None, calls [] initialStore)"
    "redo (calls [] initialStore) = (None, calls [] initialStore)"
    by simp_all
  from undo_redo_bounds [of "two_pushes @ [Undo]"] d
  have f: "undo (calls (two_pushes @ [Undo]) initialStore)
             = (None, calls (two_pushes @ [Undo]) initialStore)"
    "fst (redo (calls (two_pushes @ [Undo]) initialStore))
       = Some (hr_state (history (calls (two_pushes @ [Undo]) initialStore) ! 1))"
    "currentIndex (snd (redo (calls (two_pushes @ [Undo]) initialStore))) = 1"
    by (simp_all add: two_pushes_undo_store)
  from undo_redo_bounds [of two_pushes] c
  have g: "fst (undo (calls two_pushes initialStore))
       = Some (hr_state (history (calls two_pushes initialStore) ! 0))"
    "currentIndex (snd (undo (calls two_pushes initialStore))) = 0"
    by simp_all
  have h: "history (calls (two_pushes @ [Undo]) initialStore) ! 1 = newRecord emptyDoc ''b''"
    "history (calls two_pushes initialStore) ! 0 = newRecord emptyDoc ''a''"
    by (simp_all add: two_pushes_store two_pushes_undo_store)
  from a c d e f g h show ?thesis by simp
qed


section \<open>The keyboard: deleting the selection\<close>

lemma delete_key_is_no_shortcut:
  "ke_key e = ''Delete'' \<or> ke_key e = ''Backspace'' \<Longrightarrow> ke_key e \<noteq> ''z'' \<and> ke_key e \<noteq> ''y''"
  by auto

lemma keySpace_fields:
  "shapes (keySpace e st p) = shapes p" "annotations (keySpace e st p) = annotations p"
  "store (keySpace e st p) = store p" "selectedId (keySpace e st p) = selectedId p"
  by (simp_all add: keySpace_def)

lemma keyEscape_fields:
  "shapes (keyEscape e p) = shapes p" "annotations (keyEscape e p) = annotations p"
  "store (keyEscape e p) = store p" "selectedId (keyEscape e p) = selectedId p"
  by (simp_all add: keyEscape_def)

lemma keyDelete_selected:
  assumes "ke_key e = ''Delete'' \<or> ke_key e = ''Backspace''"
    and "selectedId st = Some sid" and "sid \<noteq> []"
  shows "keyDelete e st p =
           p\<lparr>shapes := filter (\<lambda>shape. sh_id shape \<noteq> sid) (shapes st),
             annotations := filter (\<lambda>anno. shapeId anno \<noteq> sid) (annotations st),
             store := addHistory
                        \<lparr>hs_shapes = filter (\<lambda>shape. sh_id shape \<noteq> sid) (shapes st),
                         hs_annotations = filter (\<lambda>anno. shapeId anno \<noteq> sid) (annotations st)\<rparr>
                        (deletePrefix @ sid) (store p),
             selectedId := None\<rparr>"
  using assms by (simp add: keyDelete_def truthy_def template_def)

lemma handleKeyboardDown_delete:
  assumes "ke_key e = ''Delete'' \<or> ke_key e = ''Backspace''"
    and "selectedId st = Some sid" and "sid \<noteq> []"
  shows "shapes (handleKeyboardDown e st) = filter (\<lambda>shape. sh_id shape \<noteq> sid) (shapes st)"
    and "annotations (handleKeyboardDown e st) = filter (\<lambda>anno. shapeId anno \<noteq> sid) (annotations st)"
    and "store (handleKeyboardDown e st) =
           addHistory
             \<lparr>hs_shapes = filter (\<lambda>shape. sh_id shape \<noteq> sid) (shapes st),
              hs_annotations = filter (\<lambda>anno. shapeId anno \<noteq> sid) (annotations st)\<rparr>
             (deletePrefix @ sid) (store st)"
    and "selectedId (handleKeyboardDown e st) = None"
  using delete_key_is_no_shortcut [OF assms(1)]
  by (simp_all add: handleKeyboardDown_def Let_def keyDelete_selected [OF assms] keyUndo_def
        keyRedo_def keyEscape_fields keySpace_fields)

text \<open>
  C8 as stated fails where the selected id is the empty string: it is not \<^verbatim>\<open>null\<close>, but
  the handler tests \<^verbatim>\<open>selectedId\<close> for truthiness, so Delete changes neither the shapes,
  the annotations, the history nor the selection.
\<close>

theorem delete_empty_id_counterexample:
  "selectedId emptyIdSelected \<noteq> None
   \<and> shapes (handleKeyboardDown pressDelete emptyIdSelected) = shapes emptyIdSelected
   \<and> annotations (handleKeyboardDown pressDelete emptyIdSelected) = annotations emptyIdSelected
   \<and> store (handleKeyboardDown pressDelete emptyIdSelected) = store emptyIdSelected
   \<and> selectedId (handleKeyboardDown pressDelete emptyIdSelected) = selectedId emptyIdSelected"
  by (simp add: handleKeyboardDown_def keySpace_def keyEscape_def keyUndo_def keyRedo_def
        keyDelete_def pressDelete_def emptyIdSelected_def truthy_def Let_def)

text \<open>
  A push onto a store that satisfies the invariant makes the pushed document the current
  entry and the last record of the history.
\<close>

lemma addHistory_current:
  assumes "store_inv s"
  shows "getCurrentState (addHistory doc d s) = Some doc"
    and "last (history (addHistory doc d s)) = newRecord doc d"
    and "history (addHistory doc d s) \<noteq> []"
proof -
  let ?kept = "take (nat (currentIndex s + 1)) (history s)"
  let ?k = "length ?kept + 1 - 30"
  have h: "history (addHistory doc d s) = drop ?k (?kept @ [newRecord doc d])"
    by (rule addHistory_history [OF assms])
  have k: "?k \<le> length ?kept" by arith
  then have h': "history (addHistory doc d s) = drop ?k ?kept @ [newRecord doc d]"
    by (simp add: h)
  show "last (history (addHistory doc d s)) = newRecord doc d" by (simp add: h')
  show "history (addHistory doc d s) \<noteq> []" by (simp add: h')
  have c: "currentIndex (addHistory doc d s) = int (length (history (addHistory doc d s))) - 1"
    by (simp add: addHistory_def Let_def)
  have "history (addHistory doc d s) ! (length (drop ?k ?kept)) = newRecord doc d"
    by (simp only: h' nth_append_length)
  moreover have "nat (currentIndex (addHistory doc d s)) = length (drop ?k ?kept)"
    by (simp add: c h')
  moreover have "0 \<le> currentIndex (addHistory doc d s)"
    "currentIndex (addHistory doc d s) < int (length (history (addHistory doc d s)))"
    by (simp_all add: c h')
  ultimately show "getCurrentState (addHistory doc d s) = Some doc"
    by (simp add: getCurrentState_def newRecord_def)
qed

text \<open>
  C8 (amended). For every state whose selected shape id is not \<^verbatim>\<open>null\<close> and not empty,
  Delete or Backspace removes the shape with that id from the shapes and every annotation
  with that \<^verbatim>\<open>shapeId\<close>, so that no shape and no annotation with the id remains, and
  clears the selection. It pushes exactly one history entry, which holds the pruned
  document: the store after the handler is the one \<^verbatim>\<open>addHistory\<close> call on the store
  before it, and on every store reached from the initial store through its actions the
  history afterwards is the kept records followed by the one new record (less the records
  dropped from the front beyond 30), with the pruned document as the last and current entry.
\<close>

theorem delete_removes_selection:
  assumes "ke_key e = ''Delete'' \<or> ke_key e = ''Backspace''"
    and "selectedId st = Some sid" and "sid \<noteq> []"
  shows "shapes (handleKeyboardDown e st) = filter (\<lambda>shape. sh_id shape \<noteq> sid) (shapes st)
    \<and> annotations (handleKeyboardDown e st) = filter (\<lambda>anno. shapeId anno \<noteq> sid) (annotations st)
    \<and> sid \<notin> sh_id ` set (shapes (handleKeyboardDown e st))
    \<and> sid \<notin> shapeId ` set (annotations (handleKeyboardDown e st))
    \<and> store (handleKeyboardDown e st) =
        addHistory \<lparr>hs_shapes = shapes (handleKeyboardDown e st),
                    hs_annotations = annotations (handleKeyboardDown e st)\<rparr>
          (deletePrefix @ sid) (store st)
    \<and> selectedId (handleKeyboardDown e st) = None
    \<and> (store st = calls cs initialStore \<longrightarrow>
         history (store (handleKeyboardDown e st)) =
           drop (length (take (nat (currentIndex (store st) + 1)) (history (store st))) + 1 - 30)
             (take (nat (currentIndex (store st) + 1)) (history (store st))
              @ [newRecord \<lparr>hs_shapes = shapes (handleKeyboardDown e st),
                            hs_annotations = annotations (handleKeyboardDown e st)\<rparr>
                   (deletePrefix @ sid)])
         \<and> last (history (store (handleKeyboardDown e st))) =
             newRecord \<lparr>hs_shapes = shapes (handleKeyboardDown e st),
                        hs_annotations = annotations (handleKeyboardDown e st)\<rparr>
               (deletePrefix @ sid)
         \<and> getCurrentState (store (handleKeyboardDown e st)) =
             Some \<lparr>hs_shapes = shapes (handleKeyboardDown e st),
                   hs_annotations = annotations (handleKeyboardDown e st)\<rparr>)"
proof -
  note d = handleKeyboardDown_delete [OF assms]
  have first: "shapes (handleKeyboardDown e st) = filter (\<lambda>shape. sh_id shape \<noteq> sid) (shapes st)
    \<and> annotations (handleKeyboardDown e st) = filter (\<lambda>anno. shapeId anno \<noteq> sid) (annotations st)
    \<and> sid \<notin> sh_id ` set (shapes (handleKeyboardDown e st))
    \<and> sid \<notin> shapeId ` set (annotations (handleKeyboardDown e st))
    \<and> store (handleKeyboardDown e st) =
        addHistory \<lparr>hs_shapes = shapes (handleKeyboardDown e st),
                    hs_annotations = annotations (handleKeyboardDown e st)\<rparr>
          (deletePrefix @ sid) (store st)
    \<and> selectedId (handleKeyboardDown e st) = None"
    by (auto simp add: d)
  have second: "history (store (handleKeyboardDown e st)) =
           drop (length (take (nat (currentIndex (store st) + 1)) (history (store st))) + 1 - 30)
             (take (nat (currentIndex (store st) + 1)) (history (store st))
              @ [newRecord \<lparr>hs_shapes = shapes (handleKeyboardDown e st),
                            hs_annotations = annotations (handleKeyboardDown e st)\<rparr>
                   (deletePrefix @ sid)])
         \<and> last (history (store (handleKeyboardDown e st))) =
             newRecord \<lparr>hs_shapes = shapes (handleKeyboardDown e st),
                        hs_annotations = annotations (handleKeyboardDown e st)\<rparr>
               (deletePrefix @ sid)
         \<and> getCurrentState (store (handleKeyboardDown e st)) =
             Some \<lparr>hs_shapes = shapes (handleKeyboardDown e st),
                   hs_annotations = annotations (handleKeyboardDown e st)\<rparr>"
    if reach: "store st = calls cs initialStore"
  proof -
    have inv: "store_inv (store st)" unfolding reach by (rule reachable_inv)
    from first have eq: "store (handleKeyboardDown e st) =
        addHistory \<lparr>hs_shapes = shapes (handleKeyboardDown e st),
                    hs_annotations = annotations (handleKeyboardDown e st)\<rparr>
          (deletePrefix @ sid) (store st)" by blast
    show ?thesis
      by (subst eq, subst eq, subst eq)
         (simp add: addHistory_history [OF inv] addHistory_current [OF inv])
  qed
  from first second show ?thesis by blast
qed

lemma mounted_store:
  "store mountedCanvas =
     \<lparr>history = [newRecord emptyDoc initialDescription], currentIndex = 0,
      maxHistorySize = 30, isSaved = False\<rparr>"
  by (simp add: mountedCanvas_def recordHistory_def addHistory_def initialStore_def
        initialCanvas_def newRecord_def emptyDoc_def Let_def)

lemma twoRectangles_fields:
  "shapes twoRectangles = [rectangle ''r1'' 0 0 50 50, rectangle ''r2'' 60 0 50 50]"
  "annotations twoRectangles = [measure_of ''r1'', measure_of ''r2'']"
  "selectedId twoRectangles = Some ''r1''"
  "store twoRectangles = store mountedCanvas"
  by (simp_all add: twoRectangles_def)

lemma rectangle_id: "sh_id (rectangle i x y w h) = i"
  by (simp add: rectangle_def)

lemma measure_of_id: "shapeId (measure_of i) = i"
  by (simp add: measure_of_def)

lemma mounted_store_reached:
  "store twoRectangles = calls [AddHistory emptyDoc initialDescription] initialStore"
  by (simp add: twoRectangles_def mountedCanvas_def recordHistory_def initialCanvas_def
        emptyDoc_def)

theorem delete_removes_selection_witness:
  "shapes (handleKeyboardDown pressDelete twoRectangles) = [rectangle ''r2'' 60 0 50 50]
   \<and> annotations (handleKeyboardDown pressDelete twoRectangles) = [measure_of ''r2'']
   \<and> selectedId (handleKeyboardDown pressDelete twoRectangles) = None
   \<and> history (store twoRectangles) = [newRecord emptyDoc initialDescription]
   \<and> history (store (handleKeyboardDown pressDelete twoRectangles)) =
       [newRecord emptyDoc initialDescription,
        newRecord \<lparr>hs_shapes = [rectangle ''r2'' 60 0 50 50], hs_annotations = [measure_of ''r2'']\<rparr>
          (deletePrefix @ ''r1'')]
   \<and> getCurrentState (store (handleKeyboardDown pressDelete twoRectangles)) =
       Some \<lparr>hs_shapes = [rectangle ''r2'' 60 0 50 50], hs_annotations = [measure_of ''r2'']\<rparr>"
proof -
  have k: "ke_key pressDelete = ''Delete'' \<or> ke_key pressDelete = ''Backspace''"
    by (simp add: pressDelete_def)
  have n: "''r1'' \<noteq> []" by simp
  note r = delete_removes_selection [OF k twoRectangles_fields(3) n,
      where cs = "[AddHistory emptyDoc initialDescription]"]
  have a: "shapes (handleKeyboardDown pressDelete twoRectangles) = [rectangle ''r2'' 60 0 50 50]"
    using r by (simp add: twoRectangles_fields rectangle_id)
  have b: "annotations (handleKeyboardDown pressDelete twoRectangles) = [measure_of ''r2'']"
    using r by (simp add: twoRectangles_fields measure_of_id)
  have c: "selectedId (handleKeyboardDown pressDelete twoRectangles) = None"
    using r by simp
  have f: "history (store twoRectangles) = [newRecord emptyDoc initialDescription]"
    "currentIndex (store twoRectangles) = 0"
    by (simp_all add: twoRectangles_fields mounted_store)
  from r mounted_store_reached
  have g0: "history (store (handleKeyboardDown pressDelete twoRectangles)) =
           drop (length (take (nat (currentIndex (store twoRectangles) + 1))
                           (history (store twoRectangles))) + 1 - 30)
             (take (nat (currentIndex (store twoRectangles) + 1)) (history (store twoRectangles))
              @ [newRecord \<lparr>hs_shapes = shapes (handleKeyboardDown pressDelete twoRectangles),
                            hs_annotations = annotations (handleKeyboardDown pressDelete twoRectangles)\<rparr>
                   (deletePrefix @ ''r1'')])"
    and h0: "getCurrentState (store (handleKeyboardDown pressDelete twoRectangles)) =
             Some \<lparr>hs_shapes = shapes (handleKeyboardDown pressDelete twoRectangles),
                   hs_annotations = annotations (handleKeyboardDown pressDelete twoRectangles)\<rparr>"
    by blast+
  have g: "history (store (handleKeyboardDown pressDelete twoRectangles)) =
       [newRecord emptyDoc initialDescription,
        newRecord \<lparr>hs_shapes = [rectangle ''r2'' 60 0 50 50], hs_annotations = [measure_of ''r2'']\<rparr>
          (deletePrefix @ ''r1'')]"
    by (simp add: g0 a b f)
  have h: "getCurrentState (store (handleKeyboardDown pressDelete twoRectangles)) =
       Some \<lparr>hs_shapes = [rectangle ''r2'' 60 0 50 50], hs_annotations = [measure_of ''r2'']\<rparr>"
    by (simp add: h0 a b)
  from a b c f g h show ?thesis by simp
qed

lemma keySpace_editingText:
  "keySpace e (st\<lparr>editingText := t\<rparr>) (p\<lparr>editingText := t\<rparr>) = (keySpace e st p)\<lparr>editingText := t\<rparr>"
  by (simp add: keySpace_def)

lemma keyEscape_editingText:
  "keyEscape e (p\<lparr>editingText := t\<rparr>) = (keyEscape e p)\<lparr>editingText := t\<rparr>"
  by (simp add: keyEscape_def)

lemma keyUndo_editingText:
  "keyUndo e (p\<lparr>editingText := t\<rparr>) = (keyUndo e p)\<lparr>editingText := t\<rparr>"
  by (simp add: keyUndo_def handleUndo_def split: prod.splits option.splits)

lemma keyRedo_editingText:
  "keyRedo e (p\<lparr>editingText := t\<rparr>) = (keyRedo e p)\<lparr>editingText := t\<rparr>"
  by (simp add: keyRedo_def handleRedo_def split: prod.splits option.splits)

lemma keyDelete_editingText:
  "keyDelete e (st\<lparr>editingText := t\<rparr>) (p\<lparr>editingText := t\<rparr>) = (keyDelete e st p)\<lparr>editingText := t\<rparr>"
  by (simp add: keyDelete_def)

lemma handleKeyboardDown_editingText:
  "handleKeyboardDown e (st\<lparr>editingText := t\<rparr>) = (handleKeyboardDown e st)\<lparr>editingText := t\<rparr>"
  by (simp only: handleKeyboardDown_def Let_def if_cancel keySpace_editingText
        keyEscape_editingText keyUndo_editingText keyRedo_editingText keyDelete_editingText)

text \<open>
  C10 as stated fails for a selected shape whose id is the empty string: with a
  text-editing session active and that shape selected, Backspace removes neither the shape
  nor its annotation.
\<close>

theorem delete_while_editing_counterexample:
  "editingText emptyIdEditing \<noteq> None
   \<and> selectedId emptyIdEditing = Some (sh_id (rectangle [] 0 0 50 50))
   \<and> shapes emptyIdEditing = [rectangle [] 0 0 50 50]
   \<and> shapes (handleKeyboardDown pressBackspace emptyIdEditing) = [rectangle [] 0 0 50 50]
   \<and> annotations (handleKeyboardDown pressBackspace emptyIdEditing) = [measure_of []]"
  by (simp add: handleKeyboardDown_def keySpace_def keyEscape_def keyUndo_def keyRedo_def
        keyDelete_def pressBackspace_def emptyIdEditing_def emptyIdSelected_def truthy_def
        rectangle_def Let_def)

text \<open>
  C10 (amended). The text-editing guard is the last statement of the keydown handler, so
  the state after the handler is the same with and without a text-editing session. For every
  keydown event with key Delete or Backspace while the selected id is not \<^verbatim>\<open>null\<close> and
  not empty, the shape with that id and its annotations are removed, also while a
  text-editing session is active.
\<close>

theorem delete_ignores_text_editing:
  "handleKeyboardDown e (st\<lparr>editingText := t\<rparr>) = (handleKeyboardDown e st)\<lparr>editingText := t\<rparr>
   \<and> ((ke_key e = ''Delete'' \<or> ke_key e = ''Backspace'') \<and> selectedId st = Some sid \<and> sid \<noteq> []
          \<and> editingText st \<noteq> None
        \<longrightarrow> shapes (handleKeyboardDown e st) = filter (\<lambda>shape. sh_id shape \<noteq> sid) (shapes st)
          \<and> annotations (handleKeyboardDown e st)
              = filter (\<lambda>anno. shapeId anno \<noteq> sid) (annotations st))"
  using handleKeyboardDown_editingText [where e = e and st = st and t = t]
        handleKeyboardDown_delete(1,2) [where e = e and st = st and sid = sid]
  by blast

theorem delete_ignores_text_editing_witness:
  "editingText (twoRectangles\<lparr>editingText := Some ''t1''\<rparr>) \<noteq> None
   \<and> shapes (handleKeyboardDown pressBackspace (twoRectangles\<lparr>editingText := Some ''t1''\<rparr>))
       = [rectangle ''r2'' 60 0 50 50]
   \<and> annotations (handleKeyboardDown pressBackspace (twoRectangles\<lparr>editingText := Some ''t1''\<rparr>))
       = [measure_of ''r2'']"
  using delete_ignores_text_editing
          [where e = pressBackspace and st = "twoRectangles\<lparr>editingText := Some ''t1''\<rparr>"
             and t = "Some ''t1''" and sid = "''r1''"]
  by (simp add: pressBackspace_def twoRectangles_def rectangle_id measure_of_id)


section \<open>The wheel: zoom steps\<close>








section \<open>Pointer up: the small-shape discard\<close>

lemma polygonSegment_id: "polygonSegment st cid = Some (cs, ps) \<Longrightarrow> sh_id cs = cid"
  by (auto simp add: polygonSegment_def find_Some_iff split: if_splits option.splits)

lemma polygonSegment_tool: "polygonSegment st cid = Some v \<Longrightarrow> activeTool st = Polygon"
  by (auto simp add: polygonSegment_def split: if_splits)

lemma ids_draggable:
  "map sh_id (map (\<lambda>shape. if sh_id shape = cid then shape\<lparr>sh_draggable := True\<rparr> else shape) xs)
     = map sh_id xs"
  by (induction xs) auto

lemma ids_replace:
  "sh_id c = cid \<Longrightarrow>
   map sh_id (map (\<lambda>s. if sh_id s = cid then c\<lparr>sh_points := v\<rparr> else s) xs) = map sh_id xs"
  by (induction xs) auto

lemma handleMouseUp_keeps_ids:
  assumes "handleMouseUp pointerPos jointId st = Some (st', t)"
    and "currentShapeId st = Some cid"
    and "\<not> isSmallShape st cid"
  shows "map sh_id (shapes st') = map sh_id (shapes st)"
  using assms
  by (auto simp add: handleMouseUp_def Let_def ids_draggable ids_replace polygonSegment_id
        split: if_splits option.splits prod.splits list.splits)

lemma find_id_mem: "find (\<lambda>s. sh_id s = cid) xs = Some shape \<Longrightarrow> cid \<in> set (map sh_id xs)"
  by (auto simp add: find_Some_iff)

text \<open>
  Outside the polygon tool the handler always has a result in the model.
\<close>

lemma handleMouseUp_defined:
  "activeTool st \<noteq> Polygon \<Longrightarrow> \<exists>st' t. handleMouseUp pointerPos jointId st = Some (st', t)"
  by (auto simp add: handleMouseUp_def Let_def polygonSegment_def
        split: option.splits prod.splits)

text \<open>
  C9. The shape being drawn is dropped from the shapes on pointer-up only when the active
  tool is the rectangle or the circle tool and the shape is a rectangle whose width and
  height are both below 5, or a circle whose radius is below 5. A rectangle of width 2 and
  height 100 stays, and no shape is dropped for its size while the line, polygon, brush or
  pen tool is active.
\<close>

theorem small_shape_discard:
  assumes "handleMouseUp pointerPos jointId st = Some (st', t)"
    and "currentShapeId st = Some cid"
    and "find (\<lambda>s. sh_id s = cid) (shapes st) = Some shape"
  shows "cid \<notin> set (map sh_id (shapes st')) \<longrightarrow>
         (activeTool st = Rectangle \<or> activeTool st = Circle)
         \<and> ((sh_type shape = ''rectangle'' \<and> or_zero (sh_width shape) < 5
              \<and> or_zero (sh_height shape) < 5)
            \<or> (sh_type shape = ''circle'' \<and> or_zero (sh_radius shape) < 5))"
proof
  assume gone: "cid \<notin> set (map sh_id (shapes st'))"
  have "isSmallShape st cid"
  proof (rule ccontr)
    assume "\<not> isSmallShape st cid"
    from handleMouseUp_keeps_ids [OF assms(1) assms(2) this] find_id_mem [OF assms(3)] gone
    show False by simp
  qed
  with assms(3) show "(activeTool st = Rectangle \<or> activeTool st = Circle)
         \<and> ((sh_type shape = ''rectangle'' \<and> or_zero (sh_width shape) < 5
              \<and> or_zero (sh_height shape) < 5)
            \<or> (sh_type shape = ''circle'' \<and> or_zero (sh_radius shape) < 5))"
    by (simp add: isSmallShape_def)
qed

lemmas canvas_eval =
  mountedCanvas_def initialCanvas_def rectangle_def segment_def
  getStagePointerPosition_def scale_def or_zero_def truthy_def Let_def

lemma thinRectangle_up:
  "\<exists>st'. handleMouseUp (Some (12, 110)) ''j1'' thinRectangle = Some (st', None)"
  by (simp add: handleMouseUp_def thinRectangle_def isSmallShape_def polygonSegment_def
        canvas_eval)

theorem small_shape_discard_witness:
  "\<exists>st'. handleMouseUp (Some (12, 110)) ''j1'' thinRectangle = Some (st', None)
     \<and> currentShapeId thinRectangle = Some ''r1''
     \<and> find (\<lambda>s. sh_id s = ''r1'') (shapes thinRectangle) = Some (rectangle ''r1'' 10 10 2 100)
     \<and> activeTool thinRectangle = Rectangle
     \<and> sh_width (rectangle ''r1'' 10 10 2 100) = Some 2
     \<and> sh_height (rectangle ''r1'' 10 10 2 100) = Some 100
     \<and> ''r1'' \<in> set (map sh_id (shapes st'))"
proof -
  obtain st' where up: "handleMouseUp (Some (12, 110)) ''j1'' thinRectangle = Some (st', None)"
    using thinRectangle_up by blast
  have cur: "currentShapeId thinRectangle = Some ''r1''"
    by (simp add: thinRectangle_def)
  have fnd: "find (\<lambda>s. sh_id s = ''r1'') (shapes thinRectangle) = Some (rectangle ''r1'' 10 10 2 100)"
    by (simp add: thinRectangle_def rectangle_def)
  have "''r1'' \<in> set (map sh_id (shapes st'))"
    using small_shape_discard [OF up cur fnd] by (simp add: rectangle_def or_zero_def)
  with up cur fnd show ?thesis
    by (auto simp add: thinRectangle_def rectangle_def)
qed


section \<open>Pointer move: alignment snapping\<close>

lemmas move_eval =
  handleMouseMove_def alignAll_def alignShape_def alignX_def alignY_def alignmentThreshold_def
  moveShape_def

text \<open>
  The geometry of a rectangle, a circle and a freehand path is computed from the pointer;
  the snapped coordinates enter the geometry of a line only.
\<close>

lemma moveShape_ignores_snap:
  "sh_type shape \<noteq> ''line'' \<Longrightarrow> sh_type shape \<noteq> ''polygon'' \<Longrightarrow>
   moveShape start pointer snapped shape = moveShape start pointer pointer shape"
  by (simp add: moveShape_def split: prod.splits)

lemma moveShape_line_snapped:
  "sh_type shape = ''line'' \<Longrightarrow>
   sh_points (moveShape (sx, sy) pointer (snappedX, snappedY) shape)
     = Some [sx, sy, snappedX, snappedY]"
  by (simp add: moveShape_def split: prod.splits)

text \<open>
  C6. The pointer at \<open>x = 109\<close> is within the threshold of 10 of the right edge, at
  \<open>x = 110\<close>, of the other rectangle, and the handler emits the alignment guide at
  \<open>x = 110\<close>. The rectangle being drawn from \<open>(200, 50)\<close> nevertheless gets its left edge
  at the pointer, \<open>x = 109\<close>, with width 91: its coordinate is not replaced by the
  candidate. A line drawn in the same session ends at \<open>x = 110\<close>.
\<close>

theorem rectangle_edge_not_snapped:
  "map (\<lambda>s. (sh_x s, sh_width s)) (shapes (handleMouseMove (Some (109, 80)) labels besideRectangle))
     = [(10, Some 100), (109, Some 91)]
   \<and> alignmentGuides (handleMouseMove (Some (109, 80)) labels besideRectangle)
     = [\<lparr>ag_points = [110, 0, 110, 4000]\<rparr>]
   \<and> map sh_points (shapes (handleMouseMove (Some (109, 80)) labels lineBesideRectangle))
     = [None, Some [200, 50, 110, 80]]"
  by (simp add: besideRectangle_def lineBesideRectangle_def move_eval canvas_eval)

theorem rectangle_edge_not_snapped_witness:
  "map (\<lambda>s. (sh_x s, sh_width s)) (shapes (handleMouseMove (Some (109, 80)) [] besideRectangle))
     = [(10, Some 100), (109, Some 91)]
   \<and> alignmentGuides (handleMouseMove (Some (109, 80)) [] besideRectangle)
     = [\<lparr>ag_points = [110, 0, 110, 4000]\<rparr>]
   \<and> map sh_points (shapes (handleMouseMove (Some (109, 80)) [] lineBesideRectangle))
     = [None, Some [200, 50, 110, 80]]"
  using rectangle_edge_not_snapped [of "[]"] by simp


section \<open>Pointer up: closing a continuous polygon\<close>

lemma sqrt_less_15: "sqrt v < 15 \<longleftrightarrow> v < 225"
proof -
  have "sqrt 225 = 15" by (rule real_sqrt_unique) simp_all
  with real_sqrt_less_iff [of v 225] show ?thesis by simp
qed

lemmas up_eval =
  handleMouseUp_def isSmallShape_def polygonSegment_def closesPolygon_def
  permanentAnnotations_def startNextSegment_def sqrt_less_15

text \<open>
  What the closing branch does. The closing test compares the end of the current segment
  with \<^verbatim>\<open>linePoints[0]\<close>, \<^verbatim>\<open>linePoints[1]\<close>; when it succeeds the session leaves the
  continuous mode and the joints stay as they are.
\<close>

lemma closesPolygon_first:
  "closesPolygon st ex ey = Some (fx, fy) \<Longrightarrow>
   continuousDrawing st \<and> 2 \<le> length (linePoints st)
   \<and> fx = linePoints st ! 0 \<and> fy = linePoints st ! 1
   \<and> sqrt ((ex - fx) * (ex - fx) + (ey - fy) * (ey - fy)) < 15"
  by (auto simp add: closesPolygon_def Let_def split: if_splits list.splits)

lemma auto_close_leaves_joints:
  assumes "\<not> (isSpacePressed st \<and> mouseCaptured st)" and "isDrawing st"
    and "startPoint st \<noteq> None" and "currentShapeId st = Some cid" and "cid \<noteq> []"
    and "pointerPos \<noteq> None"
    and "polygonSegment st cid = Some (cs, sx # sy # ex # ey # rest)"
    and "closesPolygon st ex ey = Some (fx, fy)"
  shows "\<exists>st'. handleMouseUp pointerPos jointId st = Some (st', None)
           \<and> joints st' = joints st \<and> continuousDrawing st' = False \<and> isDrawing st' = False
           \<and> currentShapeId st' = None \<and> linePoints st' = []"
  using assms polygonSegment_tool [OF assms(7)]
  by (auto simp add: handleMouseUp_def isSmallShape_def getStagePointerPosition_def Let_def
        split: option.splits prod.splits)

text \<open>The double click closes the chain by hand and adds the closing joint.\<close>

lemma double_click_adds_joint:
  "continuousDrawing st \<Longrightarrow> 4 \<le> length (linePoints st) \<Longrightarrow>
   joints (handleDblClick lineId jointId st) =
     joints st @ [\<lparr>jt_id = jointId, jt_x = linePoints st ! 0, jt_y = linePoints st ! 1,
                   jt_radius = strokeWidth st * 0.4, jt_fill = strokeColor st,
                   jt_stroke = strokeColor st\<rparr>]
   \<and> continuousDrawing (handleDblClick lineId jointId st) = False"
  by (simp add: handleDblClick_def Let_def)

text \<open>The vertices of the two sessions, one by one.\<close>

lemma first_vertex:
  "vertex (a, 0) l2 ''j1'' ''s2'' (polygonStart (0, 0))
     = Some (chainState [segment ''s1'' 0 0 a 0] (segment ''s2'' a 0 a 0) (a, 0)
               [a, 0] [] (labelled l2 ''s1''))"
  by (simp add: vertex_def polygonStart_def chainState_def labelled_def move_eval up_eval
        canvas_eval cong: prod.case_cong_weak)

lemma second_vertex_100:
  "vertex (100, 100) l3 ''j2'' ''s3''
      (chainState [segment ''s1'' 0 0 100 0] (segment ''s2'' 100 0 100 0) (100, 0) [100, 0] [] annos)
     = Some (chainState [segment ''s1'' 0 0 100 0, segment ''s2'' 100 0 100 100]
               (segment ''s3'' 100 100 100 100) (100, 100)
               [100, 0, 100, 100] [joint ''j2'' 100 100] (annos @ labelled l3 ''s2''))"
  by (simp add: vertex_def chainState_def joint_def labelled_def move_eval up_eval canvas_eval
        cong: prod.case_cong_weak)

lemma third_vertex_100:
  "vertex (11, 10) l4 ''j3'' ''s4''
      (chainState [segment ''s1'' 0 0 100 0, segment ''s2'' 100 0 100 100]
         (segment ''s3'' 100 100 100 100) (100, 100) [100, 0, 100, 100] jts annos)
     = Some (chainState [segment ''s1'' 0 0 100 0, segment ''s2'' 100 0 100 100,
                         segment ''s3'' 100 100 11 10]
               (segment ''s4'' 11 10 11 10) (11, 10)
               [100, 0, 100, 100, 11, 10] (jts @ [joint ''j3'' 11 10]) (annos @ labelled l4 ''s3''))"
  by (simp add: vertex_def chainState_def joint_def labelled_def move_eval up_eval canvas_eval
        cong: prod.case_cong_weak)

lemma second_vertex_50:
  "vertex (50, 50) l3 ''j2'' ''s3''
      (chainState [segment ''s1'' 0 0 50 0] (segment ''s2'' 50 0 50 0) (50, 0) [50, 0] [] annos)
     = Some (chainState [segment ''s1'' 0 0 50 0, segment ''s2'' 50 0 50 50]
               (segment ''s3'' 50 50 50 50) (50, 50)
               [50, 0, 50, 50] [joint ''j2'' 50 50] (annos @ labelled l3 ''s2''))"
  by (simp add: vertex_def chainState_def joint_def labelled_def move_eval up_eval canvas_eval
        cong: prod.case_cong_weak)

lemma third_vertex_50:
  "vertex (5, 3) l4 ''j3'' ''s4''
      (chainState [segment ''s1'' 0 0 50 0, segment ''s2'' 50 0 50 50]
         (segment ''s3'' 50 50 50 50) (50, 50) [50, 0, 50, 50] jts annos)
     = Some (chainState [segment ''s1'' 0 0 50 0, segment ''s2'' 50 0 50 50,
                         segment ''s3'' 50 50 0 0]
               (segment ''s4'' 0 0 0 0) (0, 0)
               [50, 0, 50, 50, 0, 0] (jts @ [joint ''j3'' 0 0]) (annos @ labelled l4 ''s3''))"
  by (simp add: vertex_def chainState_def joint_def labelled_def move_eval up_eval canvas_eval
        cong: prod.case_cong_weak)

lemma session_100:
  "polygon4 (0, 0) (100, 0) (100, 100) (11, 10) l2 l3 l4
     = Some (chainState [segment ''s1'' 0 0 100 0, segment ''s2'' 100 0 100 100,
                         segment ''s3'' 100 100 11 10]
               (segment ''s4'' 11 10 11 10) (11, 10)
               [100, 0, 100, 100, 11, 10] [joint ''j2'' 100 100, joint ''j3'' 11 10]
               ((labelled l2 ''s1'' @ labelled l3 ''s2'') @ labelled l4 ''s3''))"
  by (simp only: polygon4_def first_vertex second_vertex_100 third_vertex_100 bind.bind_lunit
        append_Cons append_Nil)

lemma session_50:
  "polygon4 (0, 0) (50, 0) (50, 50) (5, 3) l2 l3 l4
     = Some (chainState [segment ''s1'' 0 0 50 0, segment ''s2'' 50 0 50 50,
                         segment ''s3'' 50 50 0 0]
               (segment ''s4'' 0 0 0 0) (0, 0)
               [50, 0, 50, 50, 0, 0] [joint ''j2'' 50 50, joint ''j3'' 0 0]
               ((labelled l2 ''s1'' @ labelled l3 ''s2'') @ labelled l4 ''s3''))"
  by (simp only: polygon4_def first_vertex second_vertex_50 third_vertex_50 bind.bind_lunit
        append_Cons append_Nil)

lemma segment_fields:
  "sh_id (segment i x1 y1 x2 y2) = i" "sh_points (segment i x1 y1 x2 y2) = Some [x1, y1, x2, y2]"
  by (simp_all add: segment_def)

lemma joint_fields: "jt_x (joint i x y) = x" "jt_y (joint i x y) = y"
  by (simp_all add: joint_def)

lemma observe_chainState:
  "observe (chainState finished cur start chain jts annos) =
     (True, True, Some (sh_id cur), chain, map (\<lambda>j. (jt_x j, jt_y j)) jts,
      map sh_points (finished @ [cur]))"
  by (simp add: observe_def chainState_def)

text \<open>
  C5. A polygon with the vertices \<open>(0,0)\<close>, \<open>(100,0)\<close>, \<open>(100,100)\<close> and a pointer-up at
  \<open>(11,10)\<close>, within 15 units of the first vertex: the session stays in continuous mode
  and is drawing the next segment, the third segment ends at \<open>(11,10)\<close> and not at the
  first vertex, and the joint that is added is the ordinary joint at \<open>(11,10)\<close>. The
  recorded chain starts with the end of the first segment, so the first vertex is not in
  it. With the vertices \<open>(0,0)\<close>, \<open>(50,0)\<close>, \<open>(50,50)\<close> and the pointer-up at \<open>(5,3)\<close>
  the alignment guides of the first segment move the end to \<open>(0,0)\<close>, and the session
  stays in continuous mode as well.
\<close>

theorem polygon_not_closed_at_first_vertex:
  "sqrt ((11 - 0) * (11 - 0) + (10 - 0) * (10 - 0)) < (15 :: real)
   \<and> map_option observe (polygon4 (0, 0) (100, 0) (100, 100) (11, 10) l2 l3 l4)
       = Some (True, True, Some ''s4'', [100, 0, 100, 100, 11, 10], [(100, 100), (11, 10)],
               [Some [0, 0, 100, 0], Some [100, 0, 100, 100], Some [100, 100, 11, 10],
                Some [11, 10, 11, 10]])
   \<and> sqrt ((5 - 0) * (5 - 0) + (3 - 0) * (3 - 0)) < (15 :: real)
   \<and> map_option observe (polygon4 (0, 0) (50, 0) (50, 50) (5, 3) l2 l3 l4)
       = Some (True, True, Some ''s4'', [50, 0, 50, 50, 0, 0], [(50, 50), (0, 0)],
               [Some [0, 0, 50, 0], Some [50, 0, 50, 50], Some [50, 50, 0, 0],
                Some [0, 0, 0, 0]])"
  by (simp add: session_100 session_50 observe_chainState sqrt_less_15 segment_fields
        joint_fields)

theorem polygon_not_closed_at_first_vertex_witness:
  "map_option continuousDrawing (polygon4 (0, 0) (100, 0) (100, 100) (11, 10) [] [] []) = Some True
   \<and> map_option linePoints (polygon4 (0, 0) (100, 0) (100, 100) (11, 10) [] [] [])
       = Some [100, 0, 100, 100, 11, 10]
   \<and> map_option continuousDrawing (polygon4 (0, 0) (50, 0) (50, 50) (5, 3) [] [] []) = Some True"
  using polygon_not_closed_at_first_vertex [of "[]" "[]" "[]"]
  by (auto simp add: observe_def)

end
